theory Spec2Isabelle
  imports Main
begin

section \<open>Terminal clipboard contribution and terminal find widget\<close>

text \<open>
  The development embeds two classes of the workbench:
  \<^item> \<^verbatim>\<open>TerminalClipboardContribution\<close> (terminal.clipboard.contribution.ts): copy on
    selection, paste, and the override of copy on selection;
  \<^item> \<^verbatim>\<open>TerminalFindWidget\<close> (terminalFindWidget.ts): the handlers that take and give
    back that override.

  Every method is a function from the world before the call to the world after it. A
  method that can throw returns the outcome next to the world, so that the world left
  behind by a failed call is a value one can talk about. The collaborators (terminal,
  clipboard service, paste guard, configuration, find input) are read through a record
  of observations; calls made on them are appended to a trace, in program order,
  together with the writes to the fields the properties are about. The calls to
  \<^verbatim>\<open>notify\<close> only write to the log service and are left out. Each method runs to
  completion: what an awaited collaborator answers is a field of the observations.
\<close>

subsection \<open>Data\<close>

text \<open>The argument of \<^verbatim>\<open>IClipboardService.readText\<close>: none, or \<^verbatim>\<open>'selection'\<close>.\<close>

datatype channel = DefaultChannel | SelectionChannel

text \<open>\<^verbatim>\<open>IBufferCellPosition\<close> and \<^verbatim>\<open>IBufferRange\<close> of xterm.\<close>

record cell_position =
  cell_x :: int
  cell_y :: int

record buffer_range =
  range_start :: cell_position
  range_end :: cell_position

text \<open>
  What \<^verbatim>\<open>shouldPasteTerminalText\<close> resolves to: \<^verbatim>\<open>false\<close>, \<^verbatim>\<open>true\<close> or
  \<^verbatim>\<open>{ modifiedText }\<close>.
\<close>

datatype paste_decision = Rejected | Approved | Modified string

text \<open>The options handed to the search addon.\<close>

record search_options =
  regex :: bool
  wholeWord :: bool
  caseSensitive :: bool
  incremental :: "bool option"

text \<open>The one \<^verbatim>\<open>throw\<close> of the two files.\<close>

datatype error = CannotSetOverrideMultipleTimes

datatype effect =
    SetOverrideCopySelection "bool option"
  | SetPreviousSelection string
  | SetPreviousSelectionPosition "buffer_range option"
  | ReadText channel
  | XtermCopySelection "bool option"
  | InstanceFocus
  | WillPaste string
  | XtermPaste string
  | DidPaste string
  | FindPrevious string search_options
  | ClearActiveSearchDecoration

text \<open>
  The fields of \<^verbatim>\<open>TerminalClipboardContribution\<close>; \<open>xterm\<close> is \<^verbatim>\<open>_xterm !== undefined\<close>,
  and \<open>onWillPaste_subscribed\<close> says whether the emitter \<^verbatim>\<open>_onWillPaste\<close> has the listener
  that the constructor of the find widget subscribes.
\<close>

record contribution =
  xterm :: bool
  overrideCopySelection :: "bool option"
  previousSelection :: "string option"
  previousSelectionPosition :: "buffer_range option"
  onWillPaste_subscribed :: bool

text \<open>
  The fields of \<^verbatim>\<open>TerminalFindWidget\<close> that the handlers below touch. A disposable is
  named by its index in \<open>disposables\<close>.
\<close>

record find_widget =
  overrideCopyOnSelectionDisposable :: "nat option"
  findWidgetFocused :: bool

text \<open>
  \<open>disposables\<close> holds, for every disposable that \<^verbatim>\<open>overrideCopyOnSelection\<close> has
  returned, whether it has been disposed.
\<close>

record world =
  clipboard :: contribution
  widget :: find_widget
  disposables :: "bool list"
  trace :: "effect list"

text \<open>What the methods read from their collaborators.\<close>

record env =
  copyOnSelection :: bool
  getSelection :: string
  getSelectionPosition :: "buffer_range option"
  hasSelection :: bool
  readText :: "channel \<Rightarrow> string"
  shouldPasteTerminalText :: "string \<Rightarrow> bool \<Rightarrow> paste_decision"
  bracketedPasteMode :: bool
  getContribution :: bool
  instance_xterm :: bool
  inputValue :: string
  regexValue :: bool
  wholeWordValue :: bool
  caseSensitiveValue :: bool

text \<open>
  \<open>getContribution\<close> is \<^verbatim>\<open>TerminalClipboardContribution.get(this._instance) !== null\<close> and
  \<open>instance_xterm\<close> is \<^verbatim>\<open>this._instance.xterm !== undefined\<close>, both as the find widget
  sees them.
\<close>

definition emit :: "effect \<Rightarrow> world \<Rightarrow> world" where
  "emit e w = w\<lparr>trace := trace w @ [e]\<rparr>"

text \<open>
  The field initialisers of the two classes, before the constructor of the find widget
  has run.
\<close>

definition initial_world :: world where
  "initial_world =
     \<lparr>clipboard = \<lparr>xterm = False, overrideCopySelection = None,
                   previousSelection = None, previousSelectionPosition = None,
                   onWillPaste_subscribed = False\<rparr>,
      widget = \<lparr>overrideCopyOnSelectionDisposable = None, findWidgetFocused = False\<rparr>,
      disposables = [],
      trace = []\<rparr>"

subsection \<open>TerminalClipboardContribution\<close>

text \<open>\<^verbatim>\<open>xtermReady\<close> stores the terminal and subscribes the handlers below.\<close>

definition xtermReady :: "world \<Rightarrow> world" where
  "xtermReady w = w\<lparr>clipboard := (clipboard w)\<lparr>xterm := True\<rparr>\<rparr>"

text \<open>The assignments to the three fields the properties are about.\<close>

definition set_overrideCopySelection :: "bool option \<Rightarrow> world \<Rightarrow> world" where
  "set_overrideCopySelection v w =
     emit (SetOverrideCopySelection v)
       (w\<lparr>clipboard := (clipboard w)\<lparr>overrideCopySelection := v\<rparr>\<rparr>)"

definition set_previousSelection :: "string \<Rightarrow> world \<Rightarrow> world" where
  "set_previousSelection s w =
     emit (SetPreviousSelection s)
       (w\<lparr>clipboard := (clipboard w)\<lparr>previousSelection := Some s\<rparr>\<rparr>)"

definition set_previousSelectionPosition :: "buffer_range option \<Rightarrow> world \<Rightarrow> world" where
  "set_previousSelectionPosition p w =
     emit (SetPreviousSelectionPosition p)
       (w\<lparr>clipboard := (clipboard w)\<lparr>previousSelectionPosition := p\<rparr>\<rparr>)"

text \<open>
  The callback under \<^verbatim>\<open>toDisposable\<close> in \<^verbatim>\<open>overrideCopyOnSelection\<close>:
  \<^verbatim>\<open>this._overrideCopySelection = undefined\<close>.
\<close>

definition clearOverride :: "world \<Rightarrow> world" where
  "clearOverride w = set_overrideCopySelection None w"

text \<open>A disposable that has been handed out and not yet disposed.\<close>

definition live :: "nat \<Rightarrow> world \<Rightarrow> bool" where
  "live h w = (h < length (disposables w) \<and> \<not> disposables w ! h)"

text \<open>
  Modelled from the spec: \<^verbatim>\<open>toDisposable\<close> of base/common/lifecycle, which is not among
  the sources. The handle it returns "resets the lock to unset exactly once,
  idempotently, regardless of how many times it is invoked": the first \<^verbatim>\<open>dispose\<close>
  runs the callback, every later one does nothing.
\<close>

definition dispose :: "nat \<Rightarrow> world \<Rightarrow> world" where
  "dispose h w =
     (if live h w then clearOverride (w\<lparr>disposables := (disposables w)[h := True]\<rparr>)
      else w)"

text \<open>
  \<^verbatim>\<open>overrideCopyOnSelection(value)\<close>: throws when the field is not \<^verbatim>\<open>undefined\<close>;
  otherwise stores the value and returns a new disposable.
\<close>

definition overrideCopyOnSelection :: "bool \<Rightarrow> world \<Rightarrow> (error + nat) \<times> world" where
  "overrideCopyOnSelection v w =
     (if overrideCopySelection (clipboard w) \<noteq> None
      then (Inl CannotSetOverrideMultipleTimes, w)
      else (Inr (length (disposables w)),
            (set_overrideCopySelection (Some v) w)
              \<lparr>disposables := disposables w @ [False]\<rparr>))"

text \<open>\<^verbatim>\<open>copySelection(asHtml)\<close>: \<^verbatim>\<open>this._xterm?.copySelection(asHtml, command)\<close>.\<close>

definition copySelection :: "bool option \<Rightarrow> world \<Rightarrow> world" where
  "copySelection asHtml w =
     (if xterm (clipboard w) then emit (XtermCopySelection asHtml) w else w)"

text \<open>
  The source compares the two positions through \<^verbatim>\<open>JSON.stringify\<close>. The terminal builds
  every range with the same keys in the same order and whole numbers, and
  \<^verbatim>\<open>JSON.stringify(undefined)\<close> is \<^verbatim>\<open>undefined\<close>, so the two texts are equal exactly when
  the two positions are.
\<close>

definition same_json :: "buffer_range option \<Rightarrow> buffer_range option \<Rightarrow> bool" where
  "same_json p q = (p = q)"

text \<open>The listener of \<^verbatim>\<open>xterm.onDidChangeSelection\<close> subscribed in \<^verbatim>\<open>xtermReady\<close>.\<close>

definition onDidChangeSelection :: "env \<Rightarrow> world \<Rightarrow> world" where
  "onDidChangeSelection e w =
     (if copyOnSelection e then
        (if overrideCopySelection (clipboard w) = Some False then w
         else if Some (getSelection e) = previousSelection (clipboard w)
                 \<and> same_json (getSelectionPosition e) (previousSelectionPosition (clipboard w))
         then w
         else if hasSelection e then
           copySelection None
             (set_previousSelectionPosition (getSelectionPosition e)
               (set_previousSelection (getSelection e) w))
         else w)
      else w)"

text \<open>
  The listener of \<^verbatim>\<open>onWillPaste\<close> that the constructor of \<^verbatim>\<open>TerminalFindWidget\<close>
  subscribes:
  \<^verbatim>\<open>this._overrideCopyOnSelectionDisposable = TerminalClipboardContribution.get(this._instance)?.overrideCopyOnSelection(false)\<close>.
  Without a contribution the optional call yields \<^verbatim>\<open>undefined\<close>, which is stored.
\<close>

definition onWillPaste_listener :: "env \<Rightarrow> world \<Rightarrow> error option \<times> world" where
  "onWillPaste_listener e w =
     (if getContribution e then
        (case overrideCopyOnSelection False w of
           (Inl err, w') \<Rightarrow> (Some err, w')
         | (Inr h, w') \<Rightarrow>
             (None, w'\<lparr>widget := (widget w')\<lparr>overrideCopyOnSelectionDisposable := Some h\<rparr>\<rparr>))
      else (None, w\<lparr>widget := (widget w)\<lparr>overrideCopyOnSelectionDisposable := None\<rparr>\<rparr>))"

text \<open>
  Modelled from the spec: \<^verbatim>\<open>Emitter.fire\<close> of base/common/event, which is not among the
  sources. The "will paste" event is "consumed by other widgets (e.g.,
  SearchCoordinator) needing to react to imminent pastes", and a paste "emits a will
  paste notification, writes the (possibly modified) text into the terminal, emits a did
  paste notification": \<^verbatim>\<open>fire\<close> runs the subscribed listener at once and then returns to
  \<^verbatim>\<open>_paste\<close>, whatever the outcome of the listener was. A listener that throws has not
  written anything before.
\<close>

definition fire_onWillPaste :: "env \<Rightarrow> string \<Rightarrow> world \<Rightarrow> world" where
  "fire_onWillPaste e t w =
     (if onWillPaste_subscribed (clipboard w)
      then snd (onWillPaste_listener e (emit (WillPaste t) w))
      else emit (WillPaste t) w)"

text \<open>
  \<^verbatim>\<open>_paste(value)\<close>. Nothing in the sources subscribes to \<^verbatim>\<open>onDidPaste\<close>, so firing it
  only adds to the trace.
\<close>

definition private_paste :: "env \<Rightarrow> string \<Rightarrow> world \<Rightarrow> world" where
  "private_paste e v w =
     (if \<not> xterm (clipboard w) then w
      else (case shouldPasteTerminalText e v (bracketedPasteMode e) of
              Rejected \<Rightarrow> w
            | Approved \<Rightarrow>
                emit (DidPaste v)
                  (emit (XtermPaste v) (fire_onWillPaste e v (emit InstanceFocus w)))
            | Modified m \<Rightarrow>
                emit (DidPaste m)
                  (emit (XtermPaste m) (fire_onWillPaste e m (emit InstanceFocus w)))))"

text \<open>\<^verbatim>\<open>paste()\<close>: \<^verbatim>\<open>_paste(await this._clipboardService.readText())\<close>.\<close>

definition paste :: "env \<Rightarrow> world \<Rightarrow> world" where
  "paste e w = private_paste e (readText e DefaultChannel) (emit (ReadText DefaultChannel) w)"

text \<open>
  \<^verbatim>\<open>pasteSelection()\<close>: takes the override with \<^verbatim>\<open>false\<close>, drops the disposable it gets,
  then pastes what the selection clipboard holds.
\<close>

definition pasteSelection :: "env \<Rightarrow> world \<Rightarrow> error option \<times> world" where
  "pasteSelection e w =
     (case overrideCopyOnSelection False w of
        (Inl err, w') \<Rightarrow> (Some err, w')
      | (Inr h, w') \<Rightarrow>
          (None, private_paste e (readText e SelectionChannel)
                   (emit (ReadText SelectionChannel) w')))"

subsection \<open>TerminalFindWidget\<close>

text \<open>
  The part of the constructor that concerns the contribution: when the terminal has one,
  the listener above is subscribed to its \<^verbatim>\<open>onWillPaste\<close>. The field
  \<^verbatim>\<open>_overrideCopyOnSelectionDisposable\<close> has no initialiser and starts \<^verbatim>\<open>undefined\<close>.
\<close>

definition findWidget_constructor :: "env \<Rightarrow> world \<Rightarrow> world" where
  "findWidget_constructor e w =
     (let w' = w\<lparr>widget := \<lparr>overrideCopyOnSelectionDisposable = None,
                               findWidgetFocused = False\<rparr>\<rparr>
      in if getContribution e
         then w'\<lparr>clipboard := (clipboard w')\<lparr>onWillPaste_subscribed := True\<rparr>\<rparr>
         else w')"

text \<open>\<^verbatim>\<open>this._overrideCopyOnSelectionDisposable?.dispose()\<close>.\<close>

definition dispose_held :: "world \<Rightarrow> world" where
  "dispose_held w =
     (case overrideCopyOnSelectionDisposable (widget w) of
        None \<Rightarrow> w
      | Some h \<Rightarrow> dispose h w)"

definition search_previous :: "env \<Rightarrow> effect" where
  "search_previous e =
     FindPrevious (inputValue e)
       \<lparr>regex = regexValue e, wholeWord = wholeWordValue e,
        caseSensitive = caseSensitiveValue e, incremental = Some True\<rparr>"

text \<open>
  \<^verbatim>\<open>_onInputChanged()\<close>. The continuation that updates the buttons once the search has
  resolved touches neither class and is left out.
\<close>

definition onInputChanged :: "env \<Rightarrow> world \<Rightarrow> world" where
  "onInputChanged e w =
     (if instance_xterm e then emit (search_previous e) (dispose_held w) else w)"

text \<open>\<^verbatim>\<open>_onFocusTrackerFocus()\<close>.\<close>

definition onFocusTrackerFocus :: "env \<Rightarrow> world \<Rightarrow> error option \<times> world" where
  "onFocusTrackerFocus e w =
     (if getContribution e then
        (case overrideCopyOnSelection False w of
           (Inl err, w') \<Rightarrow> (Some err, w')
         | (Inr h, w') \<Rightarrow>
             (None, w'\<lparr>widget := (widget w')\<lparr>overrideCopyOnSelectionDisposable := Some h,
                                                findWidgetFocused := True\<rparr>\<rparr>))
      else (None, w\<lparr>widget := (widget w)\<lparr>findWidgetFocused := True\<rparr>\<rparr>))"

text \<open>\<^verbatim>\<open>_onFocusTrackerBlur()\<close>.\<close>

definition onFocusTrackerBlur :: "env \<Rightarrow> world \<Rightarrow> world" where
  "onFocusTrackerBlur e w =
     (let w' = (if instance_xterm e then emit ClearActiveSearchDecoration w else w)
      in w'\<lparr>widget := (widget w')\<lparr>findWidgetFocused := False\<rparr>\<rparr>)"

subsection \<open>Sequences of calls\<close>

text \<open>
  The calls the event loop can make, one at a time and in any order. A call that throws
  leaves the world it had reached; the error goes to the caller and is not kept.
  \<^verbatim>\<open>handleMouseEvent\<close> and the registered actions reach the two classes only through
  \<^verbatim>\<open>paste\<close>, \<^verbatim>\<open>pasteSelection\<close> and \<^verbatim>\<open>copySelection\<close>. The listener of
  \<^verbatim>\<open>onWillPaste\<close> runs inside a paste; it is a call of its own here as well.
\<close>

datatype event =
    XtermReady
  | SelectionChanged env
  | CopySelection "bool option"
  | Paste env
  | PasteSelection env
  | InputChanged env
  | FocusTrackerFocus env
  | FocusTrackerBlur env
  | WillPasteListener env
  | FindWidgetConstructed env

fun deliver :: "event \<Rightarrow> world \<Rightarrow> world" where
  "deliver XtermReady w = xtermReady w"
| "deliver (SelectionChanged e) w = onDidChangeSelection e w"
| "deliver (CopySelection a) w = copySelection a w"
| "deliver (Paste e) w = paste e w"
| "deliver (PasteSelection e) w = snd (pasteSelection e w)"
| "deliver (InputChanged e) w = onInputChanged e w"
| "deliver (FocusTrackerFocus e) w = snd (onFocusTrackerFocus e w)"
| "deliver (FocusTrackerBlur e) w = onFocusTrackerBlur e w"
| "deliver (WillPasteListener e) w = snd (onWillPaste_listener e w)"
| "deliver (FindWidgetConstructed e) w = findWidget_constructor e w"

definition run :: "event list \<Rightarrow> world \<Rightarrow> world" where
  "run evs w = fold deliver evs w"

subsection \<open>Observers\<close>

text \<open>The last selection that was copied automatically: its text and its range.\<close>

definition snapshot :: "world \<Rightarrow> string option \<times> buffer_range option" where
  "snapshot w = (previousSelection (clipboard w), previousSelectionPosition (clipboard w))"

text \<open>The trace entries that record a write to \<^verbatim>\<open>_overrideCopySelection\<close>.\<close>

fun writes_override :: "effect \<Rightarrow> bool" where
  "writes_override (SetOverrideCopySelection b) = True"
| "writes_override _ = False"

text \<open>The trace entries of a paste that carry text: the two events and the terminal write.\<close>

fun carries_text :: "effect \<Rightarrow> bool" where
  "carries_text (WillPaste t) = True"
| "carries_text (XtermPaste t) = True"
| "carries_text (DidPaste t) = True"
| "carries_text _ = False"

text \<open>
  The listener of \<^verbatim>\<open>onWillPaste\<close> is subscribed and, when run, finds the contribution and
  the override unset: it then takes the override.
\<close>

definition listener_takes :: "env \<Rightarrow> world \<Rightarrow> bool" where
  "listener_takes e w =
     (onWillPaste_subscribed (clipboard w) \<and> getContribution e
      \<and> overrideCopySelection (clipboard w) = None)"

text \<open>The find widget holds a disposable that has not been disposed yet.\<close>

definition holds_live :: "world \<Rightarrow> bool" where
  "holds_live w =
     (case overrideCopyOnSelectionDisposable (widget w) of
        None \<Rightarrow> False
      | Some h \<Rightarrow> live h w)"

text \<open>
  What every world reached from \<open>initial_world\<close> satisfies: a disposable that has not
  been disposed is the last one handed out and the override is held, and the find
  widget only holds disposables that were handed out.
\<close>

definition well_formed :: "world \<Rightarrow> bool" where
  "well_formed w =
     ((\<forall>h. live h w \<longrightarrow>
            overrideCopySelection (clipboard w) \<noteq> None \<and> Suc h = length (disposables w))
      \<and> (\<forall>h. overrideCopyOnSelectionDisposable (widget w) = Some h \<longrightarrow>
             h < length (disposables w)))"

subsection \<open>Concrete runs\<close>

text \<open>
  A terminal whose xterm is attached, and observations in which the text "hello" is
  selected, copy on selection is switched on and the paste guard approves.
\<close>

definition ready_world :: world where
  "ready_world = xtermReady initial_world"

text \<open>The same terminal once its find widget has been constructed.\<close>

definition widget_world :: world where
  "widget_world =
     findWidget_constructor
       \<lparr>copyOnSelection = True, getSelection = [], getSelectionPosition = None,
        hasSelection = False, readText = (\<lambda>c. []),
        shouldPasteTerminalText = (\<lambda>t b. Approved), bracketedPasteMode = False,
        getContribution = True, instance_xterm = True, inputValue = [],
        regexValue = False, wholeWordValue = False, caseSensitiveValue = False\<rparr>
       ready_world"

definition hello_range :: buffer_range where
  "hello_range =
     \<lparr>range_start = \<lparr>cell_x = 0, cell_y = 0\<rparr>, range_end = \<lparr>cell_x = 5, cell_y = 0\<rparr>\<rparr>"

definition hello_env :: env where
  "hello_env =
     \<lparr>copyOnSelection = True,
      getSelection = ''hello'',
      getSelectionPosition = Some hello_range,
      hasSelection = True,
      readText = (\<lambda>c. case c of DefaultChannel \<Rightarrow> ''ls'' | SelectionChannel \<Rightarrow> ''hello''),
      shouldPasteTerminalText = (\<lambda>t b. Approved),
      bracketedPasteMode = False,
      getContribution = True,
      instance_xterm = True,
      inputValue = ''he'',
      regexValue = False,
      wholeWordValue = False,
      caseSensitiveValue = False\<rparr>"

text \<open>The same observations with a paste guard that rewrites, and one that declines.\<close>

definition rewriting_env :: env where
  "rewriting_env = hello_env\<lparr>shouldPasteTerminalText := (\<lambda>t b. Modified ''safe'')\<rparr>"

definition declining_env :: env where
  "declining_env = hello_env\<lparr>shouldPasteTerminalText := (\<lambda>t b. Rejected)\<rparr>"

section \<open>Properties\<close>

subsection \<open>Auxiliary facts\<close>

lemmas method_defs =
  emit_def xtermReady_def set_overrideCopySelection_def set_previousSelection_def
  set_previousSelectionPosition_def clearOverride_def live_def dispose_def
  overrideCopyOnSelection_def copySelection_def same_json_def onDidChangeSelection_def
  private_paste_def paste_def pasteSelection_def dispose_held_def search_previous_def
  onInputChanged_def onFocusTrackerFocus_def onFocusTrackerBlur_def
  onWillPaste_listener_def fire_onWillPaste_def findWidget_constructor_def

lemmas run_defs =
  method_defs initial_world_def ready_world_def hello_range_def hello_env_def
  rewriting_env_def declining_env_def snapshot_def holds_live_def run_def
  widget_world_def listener_takes_def

lemma override_when_held:
  "overrideCopySelection (clipboard w) \<noteq> None \<Longrightarrow>
   overrideCopyOnSelection v w = (Inl CannotSetOverrideMultipleTimes, w)"
  by (simp add: overrideCopyOnSelection_def)

lemma override_when_unset:
  "overrideCopySelection (clipboard w) = None \<Longrightarrow>
   overrideCopyOnSelection v w =
     (Inr (length (disposables w)),
      w\<lparr>clipboard := (clipboard w)\<lparr>overrideCopySelection := Some v\<rparr>,
        disposables := disposables w @ [False],
        trace := trace w @ [SetOverrideCopySelection (Some v)]\<rparr>)"
  by (simp add: overrideCopyOnSelection_def set_overrideCopySelection_def emit_def)

lemma override_fails_iff:
  "(fst (overrideCopyOnSelection v w) = Inl err) = (overrideCopySelection (clipboard w) \<noteq> None)"
  by (cases err) (simp add: overrideCopyOnSelection_def)

lemma dispose_not_live: "\<not> live h (dispose h w)"
  by (simp add: dispose_def live_def clearOverride_def set_overrideCopySelection_def emit_def)

lemma dispose_twice: "dispose h (dispose h w) = dispose h w"
  using dispose_not_live [of h w] by (simp add: dispose_def [of h "dispose h w"])

lemma dispose_funpow: "0 < n \<Longrightarrow> (dispose h ^^ n) w = dispose h w"
proof (induction n)
  case 0
  then show ?case by simp
next
  case (Suc n)
  show ?case
  proof (cases n)
    case 0
    then show ?thesis by simp
  next
    case (Suc m)
    with Suc.IH have "(dispose h ^^ n) w = dispose h w" by simp
    then show ?thesis by (simp add: dispose_twice)
  qed
qed

lemma dispose_live_unsets:
  "live h w \<Longrightarrow> overrideCopySelection (clipboard (dispose h w)) = None"
  by (simp add: dispose_def clearOverride_def set_overrideCopySelection_def emit_def)

lemma override_returns_live:
  "overrideCopyOnSelection v w = (Inr h, w') \<Longrightarrow> live h w'"
  by (auto simp: overrideCopyOnSelection_def set_overrideCopySelection_def emit_def live_def
           nth_append split: if_splits)

text \<open>Well-formedness is kept by every call.\<close>

lemma well_formed_initial: "well_formed initial_world"
  by (simp add: well_formed_def initial_world_def live_def)

lemma well_formed_emit: "well_formed (emit x w) = well_formed w"
  by (simp add: well_formed_def emit_def live_def)

lemma live_unique: "well_formed w \<Longrightarrow> live h w \<Longrightarrow> live k w \<Longrightarrow> h = k"
  unfolding well_formed_def by (metis Suc_inject)

lemma well_formed_dispose: "well_formed w \<Longrightarrow> well_formed (dispose h w)"
proof (cases "live h w")
  case False
  then show "well_formed w \<Longrightarrow> well_formed (dispose h w)" by (simp add: dispose_def)
next
  case True
  assume wf: "well_formed w"
  have none: "\<not> live k (dispose h w)" for k
  proof
    assume "live k (dispose h w)"
    then have "k \<noteq> h \<and> live k w"
      using True
      by (auto simp: dispose_def live_def clearOverride_def set_overrideCopySelection_def
            emit_def nth_list_update split: if_splits)
    with live_unique [OF wf True] show False by blast
  qed
  have "\<forall>k. overrideCopyOnSelectionDisposable (widget (dispose h w)) = Some k \<longrightarrow>
            k < length (disposables (dispose h w))"
    using wf
    by (simp add: well_formed_def dispose_def clearOverride_def set_overrideCopySelection_def
          emit_def)
  with none show "well_formed (dispose h w)" by (simp add: well_formed_def)
qed

lemma well_formed_override: "well_formed w \<Longrightarrow> well_formed (snd (overrideCopyOnSelection v w))"
  by (auto simp: well_formed_def overrideCopyOnSelection_def set_overrideCopySelection_def
        emit_def live_def nth_append split: if_splits)

lemma well_formed_listener: "well_formed w \<Longrightarrow> well_formed (snd (onWillPaste_listener e w))"
proof (cases "getContribution e \<and> overrideCopySelection (clipboard w) = None")
  case True
  assume "well_formed w"
  with True show ?thesis
    by (auto simp: onWillPaste_listener_def override_when_unset well_formed_def live_def
          nth_append)
next
  case False
  assume "well_formed w"
  with False show ?thesis
    by (auto simp: onWillPaste_listener_def override_when_held well_formed_def live_def)
qed

lemma well_formed_fire: "well_formed w \<Longrightarrow> well_formed (fire_onWillPaste e t w)"
  by (simp add: fire_onWillPaste_def well_formed_listener well_formed_emit)

lemma well_formed_private_paste: "well_formed w \<Longrightarrow> well_formed (private_paste e v w)"
  by (simp add: private_paste_def well_formed_emit well_formed_fire
        split: paste_decision.split)

lemma well_formed_constructor: "well_formed w \<Longrightarrow> well_formed (findWidget_constructor e w)"
  by (simp add: findWidget_constructor_def well_formed_def live_def Let_def)

lemma well_formed_deliver: "well_formed w \<Longrightarrow> well_formed (deliver ev w)"
proof (cases ev)
  case (InputChanged e)
  assume "well_formed w"
  then show ?thesis
    by (simp add: InputChanged onInputChanged_def dispose_held_def well_formed_emit
          well_formed_dispose split: option.split)
next
  case (Paste e)
  assume "well_formed w"
  then show ?thesis
    by (simp add: Paste paste_def well_formed_private_paste well_formed_emit)
next
  case (PasteSelection e)
  assume "well_formed w"
  from well_formed_override [OF this, of False] show ?thesis
    by (cases "overrideCopyOnSelection False w"; cases "fst (overrideCopyOnSelection False w)")
       (simp_all add: PasteSelection pasteSelection_def well_formed_private_paste
          well_formed_emit)
next
  case (FocusTrackerFocus e)
  assume wf: "well_formed w"
  show ?thesis
  proof (cases "getContribution e \<and> overrideCopySelection (clipboard w) = None")
    case True
    with wf show ?thesis
      by (auto simp: FocusTrackerFocus onFocusTrackerFocus_def override_when_unset
            well_formed_def live_def nth_append)
  next
    case False
    with wf show ?thesis
      by (auto simp: FocusTrackerFocus onFocusTrackerFocus_def override_when_held
            well_formed_def live_def)
  qed
next
  case (WillPasteListener e)
  assume "well_formed w"
  then show ?thesis by (simp add: WillPasteListener well_formed_listener)
next
  case (FindWidgetConstructed e)
  assume "well_formed w"
  then show ?thesis by (simp add: FindWidgetConstructed well_formed_constructor)
qed (auto simp: well_formed_def live_def xtermReady_def onDidChangeSelection_def copySelection_def
       set_previousSelection_def set_previousSelectionPosition_def emit_def
       onFocusTrackerBlur_def Let_def)

lemma well_formed_run: "well_formed w \<Longrightarrow> well_formed (run evs w)"
  unfolding run_def by (induction evs arbitrary: w) (simp_all add: well_formed_deliver)

lemma well_formed_ready: "well_formed ready_world"
  using well_formed_deliver [OF well_formed_initial, of XtermReady]
  by (simp add: ready_world_def)

text \<open>
  Once the override is at \<^verbatim>\<open>false\<close> and the find widget holds no disposable that could
  still release it, no call changes that.
\<close>

lemma stuck_deliver:
  "overrideCopySelection (clipboard w) = Some False \<and> \<not> holds_live w \<Longrightarrow>
   overrideCopySelection (clipboard (deliver ev w)) = Some False \<and> \<not> holds_live (deliver ev w)"
  by (cases ev)
     (auto simp: holds_live_def method_defs Let_def
           split: option.splits paste_decision.splits if_splits)

lemma stuck_run:
  "overrideCopySelection (clipboard w) = Some False \<and> \<not> holds_live w \<Longrightarrow>
   overrideCopySelection (clipboard (run evs w)) = Some False \<and> \<not> holds_live (run evs w)"
  unfolding run_def
proof (induction evs arbitrary: w)
  case Nil
  then show ?case by simp
next
  case (Cons ev evs)
  from stuck_deliver [OF Cons.prems] have
    "overrideCopySelection (clipboard (deliver ev w)) = Some False \<and> \<not> holds_live (deliver ev w)" .
  from Cons.IH [OF this] show ?case by simp
qed

lemma pasteSelection_stuck:
  "well_formed w \<Longrightarrow> overrideCopySelection (clipboard w) = None \<Longrightarrow>
   overrideCopySelection (clipboard (snd (pasteSelection e w))) = Some False
   \<and> \<not> holds_live (snd (pasteSelection e w))"
  by (auto simp: holds_live_def well_formed_def method_defs nth_append
           split: option.splits paste_decision.splits if_splits)

subsection \<open>The override of copy on selection\<close>

text \<open>
  C1. A call of \<^verbatim>\<open>overrideCopyOnSelection\<close> made while the override is held (the field
  is \<^verbatim>\<open>true\<close> or \<^verbatim>\<open>false\<close>) throws and leaves the world, hence the held value, as it
  was. No other condition raises an error: each of the four methods that can throw
  (\<^verbatim>\<open>overrideCopyOnSelection\<close> and its three callers) throws only when the override is
  held; the remaining methods have no failing outcome at all.
\<close>

theorem overrideCopyOnSelection_held_throws:
  "(overrideCopySelection (clipboard w) \<noteq> None \<longrightarrow>
      overrideCopyOnSelection v w = (Inl CannotSetOverrideMultipleTimes, w))
   \<and> (fst (overrideCopyOnSelection v w) = Inl err \<longrightarrow>
        overrideCopySelection (clipboard w) \<noteq> None)
   \<and> (fst (pasteSelection e w) = Some err \<longrightarrow> overrideCopySelection (clipboard w) \<noteq> None)
   \<and> (fst (onFocusTrackerFocus e w) = Some err \<longrightarrow>
        overrideCopySelection (clipboard w) \<noteq> None)
   \<and> (fst (onWillPaste_listener e w) = Some err \<longrightarrow>
        overrideCopySelection (clipboard w) \<noteq> None)"
proof (cases "overrideCopySelection (clipboard w)")
  case None
  then show ?thesis
    by (simp add: override_when_unset pasteSelection_def onFocusTrackerFocus_def
          onWillPaste_listener_def)
next
  case (Some b)
  then show ?thesis by (simp add: override_when_held)
qed

theorem overrideCopyOnSelection_held_throws_witness:
  "overrideCopySelection (clipboard (snd (overrideCopyOnSelection True ready_world))) \<noteq> None
   \<and> overrideCopyOnSelection False (snd (overrideCopyOnSelection True ready_world)) =
       (Inl CannotSetOverrideMultipleTimes, snd (overrideCopyOnSelection True ready_world))"
proof -
  have held:
    "overrideCopySelection (clipboard (snd (overrideCopyOnSelection True ready_world))) \<noteq> None"
    by (simp add: run_defs)
  with overrideCopyOnSelection_held_throws
         [of "snd (overrideCopyOnSelection True ready_world)" False]
  show ?thesis by blast
qed

text \<open>
  C9. A call of \<^verbatim>\<open>overrideCopyOnSelection\<close> that throws leaves the world as it was: the
  value that was held (\<^verbatim>\<open>true\<close> or \<^verbatim>\<open>false\<close>) is still held afterwards.
\<close>

theorem overrideCopyOnSelection_failure_preserves:
  "fst (overrideCopyOnSelection v w) = Inl err \<Longrightarrow>
   snd (overrideCopyOnSelection v w) = w
   \<and> (\<exists>b. overrideCopySelection (clipboard w) = Some b
          \<and> overrideCopySelection (clipboard (snd (overrideCopyOnSelection v w))) = Some b)"
  by (auto simp: overrideCopyOnSelection_def split: if_splits)

theorem overrideCopyOnSelection_failure_preserves_witness:
  "fst (overrideCopyOnSelection False (snd (overrideCopyOnSelection True ready_world))) =
     Inl CannotSetOverrideMultipleTimes
   \<and> overrideCopySelection
        (clipboard (snd (overrideCopyOnSelection False
                          (snd (overrideCopyOnSelection True ready_world))))) = Some True"
proof -
  have failed:
    "fst (overrideCopyOnSelection False (snd (overrideCopyOnSelection True ready_world))) =
       Inl CannotSetOverrideMultipleTimes"
    by (simp add: run_defs)
  have before:
    "overrideCopySelection (clipboard (snd (overrideCopyOnSelection True ready_world))) = Some True"
    by (simp add: run_defs)
  from overrideCopyOnSelection_failure_preserves [OF failed] before failed
  show ?thesis by auto
qed

text \<open>
  C2. After a call of \<^verbatim>\<open>overrideCopyOnSelection\<close> that succeeds, the returned handle has
  not been disposed; disposing it once or more leaves the override unset, and disposing
  it \<open>n\<close> times is the same as disposing it once. The same holds in any later world \<open>u\<close>
  in which the handle has not been disposed yet. Running the wrapped callback itself
  once or more, as a handle without the run-once guard would, leaves the override unset
  as well.
\<close>

theorem overrideCopyOnSelection_release_idempotent:
  "overrideCopyOnSelection v w = (Inr h, w') \<Longrightarrow> 0 < n \<Longrightarrow>
   live h w'
   \<and> overrideCopySelection (clipboard ((dispose h ^^ n) w')) = None
   \<and> (dispose h ^^ n) w' = dispose h w'
   \<and> (live h u \<longrightarrow> overrideCopySelection (clipboard ((dispose h ^^ n) u)) = None)
   \<and> overrideCopySelection (clipboard ((clearOverride ^^ n) u)) = None"
proof -
  assume ok: "overrideCopyOnSelection v w = (Inr h, w')" and n: "0 < n"
  have fresh: "live h w'" using ok by (rule override_returns_live)
  have once: "(dispose h ^^ n) x = dispose h x" for x using n by (rule dispose_funpow)
  have "overrideCopySelection (clipboard (dispose h w')) = None"
    using fresh by (rule dispose_live_unsets)
  moreover have "live h u \<longrightarrow> overrideCopySelection (clipboard (dispose h u)) = None"
    by (simp add: dispose_live_unsets)
  moreover have "overrideCopySelection (clipboard ((clearOverride ^^ n) u)) = None"
    using n by (cases n) (simp_all add: clearOverride_def set_overrideCopySelection_def emit_def)
  ultimately show ?thesis using fresh by (simp add: once)
qed

theorem overrideCopyOnSelection_release_idempotent_witness:
  "overrideCopyOnSelection False ready_world =
     (Inr 0, snd (overrideCopyOnSelection False ready_world))
   \<and> overrideCopySelection (clipboard (snd (overrideCopyOnSelection False ready_world))) =
       Some False
   \<and> overrideCopySelection
        (clipboard ((dispose 0 ^^ 3) (snd (overrideCopyOnSelection False ready_world)))) = None"
proof -
  have ok: "overrideCopyOnSelection False ready_world =
              (Inr 0, snd (overrideCopyOnSelection False ready_world))"
    by (simp add: run_defs)
  have held: "overrideCopySelection (clipboard (snd (overrideCopyOnSelection False ready_world))) =
                Some False"
    by (simp add: run_defs)
  have "(0::nat) < 3" by simp
  from overrideCopyOnSelection_release_idempotent [OF ok this] have
    "overrideCopySelection
        (clipboard ((dispose 0 ^^ 3) (snd (overrideCopyOnSelection False ready_world)))) = None"
    by blast
  with ok held show ?thesis by blast
qed

subsection \<open>Copy on selection\<close>

text \<open>
  C3. While the override holds \<^verbatim>\<open>false\<close>, the selection listener does nothing, whatever
  the configuration and the selection are: the world after the event is the world
  before it, so no copy is made and nothing is recorded.
\<close>

theorem onDidChangeSelection_override_false_skips:
  "overrideCopySelection (clipboard w) = Some False \<Longrightarrow> onDidChangeSelection e w = w"
  by (simp add: onDidChangeSelection_def)

theorem onDidChangeSelection_override_false_skips_witness:
  "overrideCopySelection (clipboard (snd (overrideCopyOnSelection False ready_world))) = Some False
   \<and> copyOnSelection hello_env \<and> hasSelection hello_env
   \<and> Some (getSelection hello_env) \<noteq>
       previousSelection (clipboard (snd (overrideCopyOnSelection False ready_world)))
   \<and> onDidChangeSelection hello_env (snd (overrideCopyOnSelection False ready_world)) =
       snd (overrideCopyOnSelection False ready_world)"
proof -
  have held: "overrideCopySelection (clipboard (snd (overrideCopyOnSelection False ready_world))) =
                Some False"
    by (simp add: run_defs)
  have "copyOnSelection hello_env \<and> hasSelection hello_env
        \<and> Some (getSelection hello_env) \<noteq>
            previousSelection (clipboard (snd (overrideCopyOnSelection False ready_world)))"
    by (simp add: run_defs)
  with onDidChangeSelection_override_false_skips [OF held, of hello_env] held
  show ?thesis by simp
qed

text \<open>
  C4. With copy on selection switched on, the override not at \<^verbatim>\<open>false\<close> and the xterm
  attached: an event whose selection text and range equal the snapshot changes nothing;
  any other event with a selection writes the snapshot and then makes exactly one copy;
  any other event without a selection changes nothing. Hence a second event with the
  same selection changes nothing. No other method writes the snapshot.
\<close>

theorem onDidChangeSelection_dedup:
  assumes "copyOnSelection e"
    and "overrideCopySelection (clipboard w) \<noteq> Some False"
    and "xterm (clipboard w)"
  shows
   "(snapshot w = (Some (getSelection e), getSelectionPosition e) \<longrightarrow>
       onDidChangeSelection e w = w)
    \<and> (snapshot w \<noteq> (Some (getSelection e), getSelectionPosition e) \<and> hasSelection e \<longrightarrow>
         onDidChangeSelection e w =
           w\<lparr>clipboard := (clipboard w)
                \<lparr>previousSelection := Some (getSelection e),
                 previousSelectionPosition := getSelectionPosition e\<rparr>,
             trace := trace w @
               [SetPreviousSelection (getSelection e),
                SetPreviousSelectionPosition (getSelectionPosition e),
                XtermCopySelection None]\<rparr>)
    \<and> (snapshot w \<noteq> (Some (getSelection e), getSelectionPosition e) \<and> \<not> hasSelection e \<longrightarrow>
         onDidChangeSelection e w = w)
    \<and> onDidChangeSelection e (onDidChangeSelection e w) = onDidChangeSelection e w
    \<and> snapshot (copySelection a w) = snapshot w
    \<and> snapshot (paste e' w) = snapshot w
    \<and> snapshot (snd (pasteSelection e' w)) = snapshot w
    \<and> snapshot (snd (overrideCopyOnSelection v w)) = snapshot w
    \<and> snapshot (dispose h w) = snapshot w
    \<and> snapshot (onInputChanged e' w) = snapshot w
    \<and> snapshot (snd (onFocusTrackerFocus e' w)) = snapshot w
    \<and> snapshot (onFocusTrackerBlur e' w) = snapshot w
    \<and> snapshot (snd (onWillPaste_listener e' w)) = snapshot w"
proof -
  have same: "snapshot w = (Some (getSelection e), getSelectionPosition e) \<longrightarrow>
                onDidChangeSelection e w = w"
    by (auto simp: onDidChangeSelection_def snapshot_def same_json_def)
  have copy: "snapshot w \<noteq> (Some (getSelection e), getSelectionPosition e) \<and> hasSelection e \<longrightarrow>
         onDidChangeSelection e w =
           w\<lparr>clipboard := (clipboard w)
                \<lparr>previousSelection := Some (getSelection e),
                 previousSelectionPosition := getSelectionPosition e\<rparr>,
             trace := trace w @
               [SetPreviousSelection (getSelection e),
                SetPreviousSelectionPosition (getSelectionPosition e),
                XtermCopySelection None]\<rparr>"
    using assms
    by (auto simp: onDidChangeSelection_def snapshot_def same_json_def copySelection_def
          set_previousSelection_def set_previousSelectionPosition_def emit_def)
  have none: "snapshot w \<noteq> (Some (getSelection e), getSelectionPosition e) \<and> \<not> hasSelection e \<longrightarrow>
         onDidChangeSelection e w = w"
    by (simp add: onDidChangeSelection_def)
  have again: "onDidChangeSelection e (onDidChangeSelection e w) = onDidChangeSelection e w"
    by (simp add: onDidChangeSelection_def same_json_def copySelection_def
          set_previousSelection_def set_previousSelectionPosition_def emit_def)
  have others:
    "snapshot (copySelection a w) = snapshot w"
    "snapshot (paste e' w) = snapshot w"
    "snapshot (snd (pasteSelection e' w)) = snapshot w"
    "snapshot (snd (overrideCopyOnSelection v w)) = snapshot w"
    "snapshot (dispose h w) = snapshot w"
    "snapshot (onInputChanged e' w) = snapshot w"
    "snapshot (snd (onFocusTrackerFocus e' w)) = snapshot w"
    "snapshot (onFocusTrackerBlur e' w) = snapshot w"
    "snapshot (snd (onWillPaste_listener e' w)) = snapshot w"
    by (simp_all add: method_defs snapshot_def Let_def
          split: paste_decision.split option.split)
  from same copy none again others show ?thesis by blast
qed

theorem onDidChangeSelection_dedup_witness:
  "copyOnSelection hello_env
   \<and> overrideCopySelection (clipboard ready_world) \<noteq> Some False
   \<and> xterm (clipboard ready_world)
   \<and> hasSelection hello_env
   \<and> snapshot ready_world \<noteq> (Some (getSelection hello_env), getSelectionPosition hello_env)
   \<and> trace (onDidChangeSelection hello_env ready_world) =
       [SetPreviousSelection ''hello'', SetPreviousSelectionPosition (Some hello_range),
        XtermCopySelection None]
   \<and> trace (onDidChangeSelection hello_env (onDidChangeSelection hello_env ready_world)) =
       [SetPreviousSelection ''hello'', SetPreviousSelectionPosition (Some hello_range),
        XtermCopySelection None]"
proof -
  have pre: "copyOnSelection hello_env"
    "overrideCopySelection (clipboard ready_world) \<noteq> Some False"
    "xterm (clipboard ready_world)"
    by (simp_all add: run_defs)
  have new: "hasSelection hello_env"
    "snapshot ready_world \<noteq> (Some (getSelection hello_env), getSelectionPosition hello_env)"
    by (simp_all add: run_defs)
  have sel: "getSelection hello_env = ''hello''"
    "getSelectionPosition hello_env = Some hello_range"
    "trace ready_world = []"
    by (simp_all add: run_defs)
  note fact = onDidChangeSelection_dedup [OF pre]
  from fact new have first:
    "onDidChangeSelection hello_env ready_world =
       ready_world\<lparr>clipboard := (clipboard ready_world)
                \<lparr>previousSelection := Some (getSelection hello_env),
                 previousSelectionPosition := getSelectionPosition hello_env\<rparr>,
             trace := trace ready_world @
               [SetPreviousSelection (getSelection hello_env),
                SetPreviousSelectionPosition (getSelectionPosition hello_env),
                XtermCopySelection None]\<rparr>"
    by blast
  from fact have second:
    "onDidChangeSelection hello_env (onDidChangeSelection hello_env ready_world) =
       onDidChangeSelection hello_env ready_world"
    by blast
  have "trace (onDidChangeSelection hello_env ready_world) =
       [SetPreviousSelection ''hello'', SetPreviousSelectionPosition (Some hello_range),
        XtermCopySelection None]"
    by (simp add: first sel)
  with second pre new show ?thesis by simp
qed

subsection \<open>Paste\<close>

text \<open>
  C5. When the paste guard declines the text of the default clipboard, \<^verbatim>\<open>paste()\<close> only
  reads the clipboard: \<^verbatim>\<open>_paste\<close> leaves the world as it found it, so the terminal is
  neither focused nor written to and neither paste event is fired.
\<close>

theorem paste_rejected_noop:
  "shouldPasteTerminalText e (readText e DefaultChannel) (bracketedPasteMode e) = Rejected \<Longrightarrow>
   paste e w = w\<lparr>trace := trace w @ [ReadText DefaultChannel]\<rparr>
   \<and> private_paste e (readText e DefaultChannel) w = w"
  by (simp add: paste_def private_paste_def emit_def)

theorem paste_rejected_noop_witness:
  "shouldPasteTerminalText declining_env (readText declining_env DefaultChannel)
     (bracketedPasteMode declining_env) = Rejected
   \<and> xterm (clipboard ready_world)
   \<and> trace (paste declining_env ready_world) = [ReadText DefaultChannel]
   \<and> clipboard (paste declining_env ready_world) = clipboard ready_world"
proof -
  have declined:
    "shouldPasteTerminalText declining_env (readText declining_env DefaultChannel)
       (bracketedPasteMode declining_env) = Rejected"
    by (simp add: run_defs)
  have "xterm (clipboard ready_world)" "trace ready_world = []"
    by (simp_all add: run_defs)
  with paste_rejected_noop [OF declined, of ready_world] declined
  show ?thesis by simp
qed

text \<open>
  C6. When the paste guard answers with \<^verbatim>\<open>{ modifiedText }\<close> and the xterm is attached,
  \<^verbatim>\<open>paste()\<close> reads the default clipboard, focuses the terminal, fires "will paste",
  writes to the terminal and fires "did paste", all three with the modified text and
  with no other text. The listener of the find widget runs inside "will paste": when it
  is subscribed and finds the override unset it takes the override with \<^verbatim>\<open>false\<close>
  between the event and the terminal write, and changes nothing about the text.
  Without an xterm the guard is not consulted and only the clipboard is read.
\<close>

theorem paste_modified_text:
  "shouldPasteTerminalText e (readText e DefaultChannel) (bracketedPasteMode e) = Modified m \<Longrightarrow>
   trace (paste e w) =
     trace w @
       (if xterm (clipboard w)
        then [ReadText DefaultChannel, InstanceFocus, WillPaste m]
             @ (if listener_takes e w then [SetOverrideCopySelection (Some False)] else [])
             @ [XtermPaste m, DidPaste m]
        else [ReadText DefaultChannel])
   \<and> (xterm (clipboard w) \<longrightarrow>
        filter carries_text (drop (length (trace w)) (trace (paste e w))) =
          [WillPaste m, XtermPaste m, DidPaste m])
   \<and> overrideCopySelection (clipboard (paste e w)) =
       (if xterm (clipboard w) \<and> listener_takes e w then Some False
        else overrideCopySelection (clipboard w))
   \<and> (\<not> onWillPaste_subscribed (clipboard w) \<longrightarrow>
        paste e w =
          w\<lparr>trace := trace w @
              (if xterm (clipboard w)
               then [ReadText DefaultChannel, InstanceFocus, WillPaste m, XtermPaste m,
                     DidPaste m]
               else [ReadText DefaultChannel])\<rparr>)"
proof -
  assume modified:
    "shouldPasteTerminalText e (readText e DefaultChannel) (bracketedPasteMode e) = Modified m"
  have tr: "trace (paste e w) =
     trace w @
       (if xterm (clipboard w)
        then [ReadText DefaultChannel, InstanceFocus, WillPaste m]
             @ (if listener_takes e w then [SetOverrideCopySelection (Some False)] else [])
             @ [XtermPaste m, DidPaste m]
        else [ReadText DefaultChannel])"
    using modified by (auto simp: method_defs listener_takes_def)
  have texts: "xterm (clipboard w) \<longrightarrow>
        filter carries_text (drop (length (trace w)) (trace (paste e w))) =
          [WillPaste m, XtermPaste m, DidPaste m]"
    by (simp add: tr)
  have ov: "overrideCopySelection (clipboard (paste e w)) =
       (if xterm (clipboard w) \<and> listener_takes e w then Some False
        else overrideCopySelection (clipboard w))"
    using modified by (auto simp: method_defs listener_takes_def)
  have alone: "\<not> onWillPaste_subscribed (clipboard w) \<longrightarrow>
        paste e w =
          w\<lparr>trace := trace w @
              (if xterm (clipboard w)
               then [ReadText DefaultChannel, InstanceFocus, WillPaste m, XtermPaste m,
                     DidPaste m]
               else [ReadText DefaultChannel])\<rparr>"
    using modified by (simp add: paste_def private_paste_def fire_onWillPaste_def emit_def)
  from tr texts ov alone show ?thesis by blast
qed

theorem paste_modified_text_witness:
  "shouldPasteTerminalText rewriting_env (readText rewriting_env DefaultChannel)
     (bracketedPasteMode rewriting_env) = Modified ''safe''
   \<and> readText rewriting_env DefaultChannel = ''ls''
   \<and> xterm (clipboard widget_world) \<and> listener_takes rewriting_env widget_world
   \<and> trace (paste rewriting_env widget_world) =
       [ReadText DefaultChannel, InstanceFocus, WillPaste ''safe'',
        SetOverrideCopySelection (Some False), XtermPaste ''safe'', DidPaste ''safe'']
   \<and> filter carries_text (trace (paste rewriting_env widget_world)) =
       [WillPaste ''safe'', XtermPaste ''safe'', DidPaste ''safe'']"
proof -
  have modified:
    "shouldPasteTerminalText rewriting_env (readText rewriting_env DefaultChannel)
       (bracketedPasteMode rewriting_env) = Modified ''safe''"
    by (simp add: run_defs)
  have pre: "xterm (clipboard widget_world)" "listener_takes rewriting_env widget_world"
    "trace widget_world = []" "readText rewriting_env DefaultChannel = ''ls''"
    by (simp_all add: run_defs Let_def)
  from paste_modified_text [OF modified, of widget_world, THEN conjunct1] pre
  have "trace (paste rewriting_env widget_world) =
       [ReadText DefaultChannel, InstanceFocus, WillPaste ''safe'',
        SetOverrideCopySelection (Some False), XtermPaste ''safe'', DidPaste ''safe'']"
    by simp
  with modified pre show ?thesis by simp
qed

text \<open>
  C7. Called while the override is unset, \<^verbatim>\<open>pasteSelection()\<close> sets the override to
  \<^verbatim>\<open>false\<close> first, then reads the selection clipboard (never the default one) and
  pastes; nothing in the call writes the override again. The disposable is dropped, so
  the override is still \<^verbatim>\<open>false\<close> when the call has returned, the next call of
  \<^verbatim>\<open>pasteSelection()\<close> throws before it reads anything, and, in a well-formed world,
  no sequence of later calls brings the override back to unset.
\<close>

theorem pasteSelection_keeps_override:
  "overrideCopySelection (clipboard w) = None \<Longrightarrow>
   fst (pasteSelection e w) = None
   \<and> (\<exists>rest. trace (snd (pasteSelection e w)) =
                trace w @ SetOverrideCopySelection (Some False) # ReadText SelectionChannel # rest
              \<and> \<not> list_ex writes_override rest \<and> ReadText DefaultChannel \<notin> set rest)
   \<and> overrideCopySelection (clipboard (snd (pasteSelection e w))) = Some False
   \<and> pasteSelection e' (snd (pasteSelection e w)) =
       (Some CannotSetOverrideMultipleTimes, snd (pasteSelection e w))
   \<and> (well_formed w \<longrightarrow>
        overrideCopySelection (clipboard (run evs (snd (pasteSelection e w)))) = Some False)"
proof -
  assume unset: "overrideCopySelection (clipboard w) = None"
  have ok: "fst (pasteSelection e w) = None"
    by (simp add: pasteSelection_def override_when_unset unset)
  have tr: "\<exists>rest. trace (snd (pasteSelection e w)) =
                trace w @ SetOverrideCopySelection (Some False) # ReadText SelectionChannel # rest
              \<and> \<not> list_ex writes_override rest \<and> ReadText DefaultChannel \<notin> set rest"
    by (auto simp: method_defs unset split: paste_decision.split)
  have held: "overrideCopySelection (clipboard (snd (pasteSelection e w))) = Some False"
    by (simp add: method_defs unset split: paste_decision.split)
  then have "overrideCopyOnSelection False (snd (pasteSelection e w)) =
               (Inl CannotSetOverrideMultipleTimes, snd (pasteSelection e w))"
    by (simp add: override_when_held)
  then have again: "pasteSelection e' (snd (pasteSelection e w)) =
               (Some CannotSetOverrideMultipleTimes, snd (pasteSelection e w))"
    by (simp add: pasteSelection_def [of e'])
  have forever: "well_formed w \<longrightarrow>
        overrideCopySelection (clipboard (run evs (snd (pasteSelection e w)))) = Some False"
  proof
    assume "well_formed w"
    from pasteSelection_stuck [OF this unset, of e]
    show "overrideCopySelection (clipboard (run evs (snd (pasteSelection e w)))) = Some False"
      by (rule stuck_run [THEN conjunct1])
  qed
  from ok tr held again forever show ?thesis by blast
qed

theorem pasteSelection_keeps_override_witness:
  "overrideCopySelection (clipboard ready_world) = None
   \<and> well_formed ready_world
   \<and> trace (snd (pasteSelection hello_env ready_world)) =
       [SetOverrideCopySelection (Some False), ReadText SelectionChannel, InstanceFocus,
        WillPaste ''hello'', XtermPaste ''hello'', DidPaste ''hello'']
   \<and> overrideCopySelection (clipboard (snd (pasteSelection hello_env ready_world))) = Some False
   \<and> pasteSelection hello_env (snd (pasteSelection hello_env ready_world)) =
       (Some CannotSetOverrideMultipleTimes, snd (pasteSelection hello_env ready_world))
   \<and> overrideCopySelection
        (clipboard (run [FocusTrackerFocus hello_env, InputChanged hello_env,
                         FocusTrackerBlur hello_env, SelectionChanged hello_env]
                      (snd (pasteSelection hello_env ready_world)))) = Some False"
proof -
  have unset: "overrideCopySelection (clipboard ready_world) = None"
    by (simp add: run_defs)
  have tr: "trace (snd (pasteSelection hello_env ready_world)) =
       [SetOverrideCopySelection (Some False), ReadText SelectionChannel, InstanceFocus,
        WillPaste ''hello'', XtermPaste ''hello'', DidPaste ''hello'']"
    by (simp add: run_defs)
  from pasteSelection_keeps_override [OF unset, of hello_env hello_env] unset tr
    well_formed_ready
  show ?thesis by blast
qed

subsection \<open>The find widget\<close>

lemma onFocusTrackerBlur_clipboard: "clipboard (onFocusTrackerBlur e w) = clipboard w"
  by (simp add: onFocusTrackerBlur_def emit_def Let_def)

text \<open>
  C8. When the find widget takes the focus while the override is unset (and the terminal
  has a clipboard contribution), the override becomes \<^verbatim>\<open>false\<close>. The blur handler does
  not touch the contribution: after the blur the override is still \<^verbatim>\<open>false\<close>, a
  selection event copies nothing, and taking the focus again throws.
\<close>

theorem onFocusTrackerBlur_keeps_override:
  "getContribution e \<Longrightarrow> overrideCopySelection (clipboard w) = None \<Longrightarrow>
   fst (onFocusTrackerFocus e w) = None
   \<and> overrideCopySelection (clipboard (snd (onFocusTrackerFocus e w))) = Some False
   \<and> overrideCopySelection
        (clipboard (onFocusTrackerBlur e' (snd (onFocusTrackerFocus e w)))) = Some False
   \<and> onDidChangeSelection e'' (onFocusTrackerBlur e' (snd (onFocusTrackerFocus e w))) =
       onFocusTrackerBlur e' (snd (onFocusTrackerFocus e w))
   \<and> fst (onFocusTrackerFocus e (onFocusTrackerBlur e' (snd (onFocusTrackerFocus e w)))) =
       Some CannotSetOverrideMultipleTimes"
proof -
  assume c: "getContribution e" and unset: "overrideCopySelection (clipboard w) = None"
  let ?w1 = "snd (onFocusTrackerFocus e w)"
  let ?w2 = "onFocusTrackerBlur e' ?w1"
  have ok: "fst (onFocusTrackerFocus e w) = None"
    by (simp add: onFocusTrackerFocus_def c override_when_unset unset)
  have h1: "overrideCopySelection (clipboard ?w1) = Some False"
    by (simp add: onFocusTrackerFocus_def c override_when_unset unset)
  then have h2: "overrideCopySelection (clipboard ?w2) = Some False"
    by (simp add: onFocusTrackerBlur_clipboard)
  then have nocopy: "onDidChangeSelection e'' ?w2 = ?w2"
    by (simp add: onDidChangeSelection_def)
  from h2 have "overrideCopyOnSelection False ?w2 = (Inl CannotSetOverrideMultipleTimes, ?w2)"
    by (simp add: override_when_held)
  then have "fst (onFocusTrackerFocus e ?w2) = Some CannotSetOverrideMultipleTimes"
    by (simp add: onFocusTrackerFocus_def [of e ?w2] c)
  with ok h1 h2 nocopy show ?thesis by blast
qed

theorem onFocusTrackerBlur_keeps_override_witness:
  "getContribution hello_env \<and> overrideCopySelection (clipboard ready_world) = None
   \<and> copyOnSelection hello_env \<and> hasSelection hello_env
   \<and> overrideCopySelection
        (clipboard (onFocusTrackerBlur hello_env (snd (onFocusTrackerFocus hello_env ready_world)))) =
       Some False
   \<and> trace (onDidChangeSelection hello_env
               (onFocusTrackerBlur hello_env (snd (onFocusTrackerFocus hello_env ready_world)))) =
       [SetOverrideCopySelection (Some False), ClearActiveSearchDecoration]
   \<and> fst (onFocusTrackerFocus hello_env
            (onFocusTrackerBlur hello_env (snd (onFocusTrackerFocus hello_env ready_world)))) =
       Some CannotSetOverrideMultipleTimes"
proof -
  have pre: "getContribution hello_env" "overrideCopySelection (clipboard ready_world) = None"
    by (simp_all add: run_defs)
  have env: "copyOnSelection hello_env" "hasSelection hello_env"
    by (simp_all add: run_defs)
  have tr: "trace (onFocusTrackerBlur hello_env (snd (onFocusTrackerFocus hello_env ready_world))) =
              [SetOverrideCopySelection (Some False), ClearActiveSearchDecoration]"
    by (simp add: run_defs Let_def)
  note fact = onFocusTrackerBlur_keeps_override [OF pre, of hello_env hello_env]
  from fact have "onDidChangeSelection hello_env
               (onFocusTrackerBlur hello_env (snd (onFocusTrackerFocus hello_env ready_world))) =
             onFocusTrackerBlur hello_env (snd (onFocusTrackerFocus hello_env ready_world))"
    by blast
  with tr have "trace (onDidChangeSelection hello_env
               (onFocusTrackerBlur hello_env (snd (onFocusTrackerFocus hello_env ready_world)))) =
       [SetOverrideCopySelection (Some False), ClearActiveSearchDecoration]"
    by simp
  with fact pre env show ?thesis by blast
qed

text \<open>
  C10, as the sources have it. With the terminal attached, \<^verbatim>\<open>_onInputChanged\<close> disposes
  the disposable the widget holds, if any, and then issues the incremental search. The
  override is unset afterwards when the widget held a disposable that had not been
  disposed yet; otherwise the override is what it was before, so an override that was
  unset stays unset and one taken by another caller stays held. The focus flag of the
  widget is not changed.
\<close>

theorem onInputChanged_disposes_held:
  "instance_xterm e \<Longrightarrow>
   overrideCopySelection (clipboard (onInputChanged e w)) =
     (if holds_live w then None else overrideCopySelection (clipboard w))
   \<and> trace (onInputChanged e w) =
       trace w @ (if holds_live w then [SetOverrideCopySelection None] else [])
         @ [search_previous e]
   \<and> findWidgetFocused (widget (onInputChanged e w)) = findWidgetFocused (widget w)
   \<and> \<not> holds_live (onInputChanged e w)"
  by (simp add: onInputChanged_def dispose_held_def holds_live_def dispose_def live_def
        clearOverride_def set_overrideCopySelection_def emit_def split: option.split)

theorem onInputChanged_disposes_held_witness:
  "instance_xterm hello_env
   \<and> holds_live (snd (onFocusTrackerFocus hello_env ready_world))
   \<and> overrideCopySelection (clipboard (snd (onFocusTrackerFocus hello_env ready_world))) =
       Some False
   \<and> overrideCopySelection
        (clipboard (onInputChanged hello_env (snd (onFocusTrackerFocus hello_env ready_world)))) =
       None
   \<and> findWidgetFocused
        (widget (onInputChanged hello_env (snd (onFocusTrackerFocus hello_env ready_world))))"
proof -
  have pre: "instance_xterm hello_env"
    by (simp add: run_defs)
  have held: "holds_live (snd (onFocusTrackerFocus hello_env ready_world))"
    "overrideCopySelection (clipboard (snd (onFocusTrackerFocus hello_env ready_world))) =
       Some False"
    "findWidgetFocused (widget (snd (onFocusTrackerFocus hello_env ready_world)))"
    by (simp_all add: run_defs)
  from onInputChanged_disposes_held
         [OF pre, of "snd (onFocusTrackerFocus hello_env ready_world)"] pre held
  show ?thesis by simp
qed

text \<open>
  C10 as stated fails: after \<^verbatim>\<open>pasteSelection()\<close> the override is held through a
  disposable that nobody kept, and a keystroke in the find input leaves it at \<^verbatim>\<open>false\<close>;
  likewise an override that another caller took with \<^verbatim>\<open>true\<close> is still held after a
  keystroke.
\<close>

theorem onInputChanged_override_still_held:
  "instance_xterm hello_env
   \<and> fst (pasteSelection hello_env ready_world) = None
   \<and> overrideCopySelection
        (clipboard (onInputChanged hello_env (snd (pasteSelection hello_env ready_world)))) =
       Some False
   \<and> overrideCopySelection
        (clipboard (onInputChanged hello_env (snd (overrideCopyOnSelection True ready_world)))) =
       Some True"
  by (simp add: run_defs)

end
